theory Spec2Isabelle
  imports Main "HOL-Library.Word" "HOL-Library.Sublist"
begin

section \<open>Game Mashup Creator: validation, prompt construction and orchestration\<close>

text \<open>
  A shallow embedding of \<^verbatim>\<open>src/main.py\<close>: the functions
  \<^verbatim>\<open>create_game_mashup\<close>, \<^verbatim>\<open>process_game_mashup\<close> and
  \<^verbatim>\<open>api_create_mashup\<close>. The completion client, the random UUID and the
  clock are inputs of the model, and so is standard output, since \<^verbatim>\<open>print\<close> can
  raise; every call of the client is recorded in a log that the functions return next to
  their result.
\<close>

subsection \<open>Values\<close>

text \<open>
  A Python \<^verbatim>\<open>str\<close> is a sequence of code points, and \<^verbatim>\<open>len\<close> and slicing
  count code points, so a string is a list of code point numbers.
\<close>

type_synonym pystr = "nat list"

definition ascii :: "string \<Rightarrow> pystr" where
  "ascii s = map of_char s"

text \<open>
  The values a parsed JSON body is made of. A Python \<^verbatim>\<open>float\<close> is given by
  its 64 bits; a \<^verbatim>\<open>dict\<close> is an association list read with \<open>map_of\<close>.
\<close>

datatype json =
    JNull
  | JBool bool
  | JInt int
  | JFloat "64 word"
  | JStr pystr
  | JList "json list"
  | JDict "(pystr \<times> json) list"

text \<open>
  Exceptions, each with the text \<^verbatim>\<open>str(e)\<close> gives. \<open>OtherError\<close> stands for any
  exception class that is not a \<^verbatim>\<open>ValueError\<close> and not raised by the interpreter
  operations modelled below. The texts of \<open>TypeError\<close> and \<open>KeyError\<close> are those of
  CPython 3.12.
\<close>

datatype exn =
    ValueError pystr
  | TypeError pystr
  | KeyError pystr
  | OtherError pystr

fun exn_str :: "exn \<Rightarrow> pystr" where
  "exn_str (ValueError m) = m"
| "exn_str (TypeError m) = m"
| "exn_str (KeyError m) = m"
| "exn_str (OtherError m) = m"

subsection \<open>The interpreter operations the code uses\<close>

text \<open>Truth value of an object, as \<^verbatim>\<open>not data[field]\<close> tests it.\<close>

fun truthy :: "json \<Rightarrow> bool" where
  "truthy JNull = False"
| "truthy (JBool b) = b"
| "truthy (JInt i) = (i \<noteq> 0)"
| "truthy (JFloat w) = (take_bit 63 w \<noteq> 0)"
| "truthy (JStr s) = (s \<noteq> [])"
| "truthy (JList xs) = (xs \<noteq> [])"
| "truthy (JDict kvs) = (kvs \<noteq> [])"

fun py_type_name :: "json \<Rightarrow> pystr" where
  "py_type_name JNull = ascii ''NoneType''"
| "py_type_name (JBool b) = ascii ''bool''"
| "py_type_name (JInt i) = ascii ''int''"
| "py_type_name (JFloat w) = ascii ''float''"
| "py_type_name (JStr s) = ascii ''str''"
| "py_type_name (JList xs) = ascii ''list''"
| "py_type_name (JDict kvs) = ascii ''dict''"

text \<open>\<^verbatim>\<open>sub in s\<close> on strings: \<open>sub\<close> occurs in \<open>s\<close> as a contiguous block.\<close>

fun substr_in :: "pystr \<Rightarrow> pystr \<Rightarrow> bool" where
  "substr_in sub [] = (sub = [])"
| "substr_in sub (c # cs) = (take (length sub) (c # cs) = sub \<or> substr_in sub cs)"

text \<open>\<^verbatim>\<open>field in data\<close>, for a string \<open>field\<close>.\<close>

fun py_in :: "pystr \<Rightarrow> json \<Rightarrow> exn + bool" where
  "py_in field (JDict kvs) = Inr (field \<in> set (map fst kvs))"
| "py_in field (JList xs) = Inr (JStr field \<in> set xs)"
| "py_in field (JStr s) = Inr (substr_in field s)"
| "py_in field v =
     Inl (TypeError (ascii ''argument of type '' @ [0x27] @ py_type_name v @ [0x27] @
                     ascii '' is not iterable''))"

text \<open>\<^verbatim>\<open>data[field]\<close>, for a string \<open>field\<close>.\<close>

fun py_getitem :: "json \<Rightarrow> pystr \<Rightarrow> exn + json" where
  "py_getitem (JDict kvs) field =
     (case map_of kvs field of
        None \<Rightarrow> Inl (KeyError ([0x27] @ field @ [0x27]))
      | Some v \<Rightarrow> Inr v)"
| "py_getitem (JList xs) field =
     Inl (TypeError (ascii ''list indices must be integers or slices, not str''))"
| "py_getitem (JStr s) field =
     Inl (TypeError (ascii ''string indices must be integers, not '' @ [0x27] @ ascii ''str'' @ [0x27]))"
| "py_getitem v field =
     Inl (TypeError ([0x27] @ py_type_name v @ [0x27] @ ascii '' object is not subscriptable''))"

text \<open>
  What an f-string puts in for \<^verbatim>\<open>{v}\<close>: a string as it is; the rendering of any
  other object is the parameter \<open>repr\<close>.
\<close>

fun py_format :: "(json \<Rightarrow> pystr) \<Rightarrow> json \<Rightarrow> pystr" where
  "py_format repr (JStr s) = s"
| "py_format repr v = repr v"

text \<open>
  \<^verbatim>\<open>print(line)\<close> writes to \<^verbatim>\<open>sys.stdout\<close>. What the stream does with a line
  is an input: \<open>None\<close> when the line is written, the exception when the write raises.
  A stream with a strict encoding raises \<^verbatim>\<open>UnicodeEncodeError\<close>, which is a
  \<^verbatim>\<open>ValueError\<close>, on a line that holds a lone surrogate; any stream can raise an
  \<^verbatim>\<open>OSError\<close>.
\<close>

type_synonym stdout = "pystr \<Rightarrow> exn option"

subsection \<open>The completion client\<close>

text \<open>The keyword arguments of the call; the temperature \<^verbatim>\<open>0.85\<close> is held in
  hundredths.\<close>

record completion_request =
  model :: pystr
  system_content :: pystr
  user_content :: pystr
  temperature_percent :: nat
  max_tokens :: nat

text \<open>
  The module-level \<^verbatim>\<open>client\<close> is \<open>None\<close> when no credential was found. Otherwise
  \<^verbatim>\<open>client.chat.completions.create(...)\<close> followed by reading
  \<^verbatim>\<open>response.choices[0].message.content\<close> is one opaque function: it yields the
  generated text or raises.
\<close>

type_synonym completion_client = "completion_request \<Rightarrow> exn + pystr"

subsection \<open>\<^verbatim>\<open>create_game_mashup\<close>\<close>

definition not_initialized_message :: pystr where
  "not_initialized_message =
     ascii ''OpenAI client is not initialized. Please check your API key and environment variables.''"

definition system_message :: pystr where
  "system_message =
     ascii ''You are a world-class game designer known for creating innovative game concepts that successfully blend different genres and mechanics. You deliver creative, detailed, and marketable game ideas.''"

definition prompt_head :: pystr where
  "prompt_head =
     ascii ''\<newline>'' @
     ascii ''    You are an expert game designer and creative director. I will give you two different games, and I want you to create an innovative mashup that combines the best elements of both into a completely new game concept.\<newline>'' @
     ascii ''\<newline>'' @
     ascii ''    **Game 1:**\<newline>'' @
     ascii ''    ''"

definition prompt_mid :: pystr where
  "prompt_mid =
     ascii ''\<newline>'' @
     ascii ''\<newline>'' @
     ascii ''    **Game 2:**\<newline>'' @
     ascii ''    ''"

definition prompt_tail :: pystr where
  "prompt_tail =
     ascii ''\<newline>'' @
     ascii ''\<newline>'' @
     ascii ''    Create a detailed game concept that fuses these two games together. Your response should include:\<newline>'' @
     ascii ''\<newline>'' @
     ascii ''    ## '' @ [0x1F3AE] @ ascii '' Game Title\<newline>'' @
     ascii ''    Create an original, catchy title that doesn't use proper nouns from either source game.\<newline>'' @
     ascii ''\<newline>'' @
     ascii ''    ## '' @ [0x1F3AF] @ ascii '' Genre & Core Concept\<newline>'' @
     ascii ''    Define the hybrid genre and explain the core fusion concept in 2-3 sentences.\<newline>'' @
     ascii ''\<newline>'' @
     ascii ''    ## '' @ [0x26A1] @ ascii '' Unique Selling Points\<newline>'' @
     ascii ''    List 3-4 compelling features that make this mashup special and marketable.\<newline>'' @
     ascii ''\<newline>'' @
     ascii ''    ## '' @ [0x1F504] @ ascii '' Core Game Loop\<newline>'' @
     ascii ''    Describe the primary gameplay cycle that players will experience repeatedly.\<newline>'' @
     ascii ''\<newline>'' @
     ascii ''    ## '' @ [0x1F3A8] @ ascii '' Key Mechanics Fusion\<newline>'' @
     ascii ''    Explain how you're combining specific mechanics from both games in creative ways.\<newline>'' @
     ascii ''\<newline>'' @
     ascii ''    ## '' @ [0x1F465] @ ascii '' Target Audience\<newline>'' @
     ascii ''    Identify who would play this game and why it appeals to fans of both source games.\<newline>'' @
     ascii ''\<newline>'' @
     ascii ''    ## '' @ [0x1F4B0] @ ascii '' Monetization Strategy\<newline>'' @
     ascii ''    Suggest 2-3 ways to make this game profitable while keeping it player-friendly.\<newline>'' @
     ascii ''\<newline>'' @
     ascii ''    ## '' @ [0x1F680] @ ascii '' Marketing Hooks\<newline>'' @
     ascii ''    Provide 3 compelling marketing angles that would grab attention.\<newline>'' @
     ascii ''\<newline>'' @
     ascii ''    IMPORTANT: Be creative and innovative. Don't just list features from both games - truly blend them into something new. Use professional language with perfect grammar and formatting.\<newline>'' @
     ascii ''    ''"

definition build_prompt :: "(json \<Rightarrow> pystr) \<Rightarrow> json \<Rightarrow> json \<Rightarrow> pystr" where
  "build_prompt repr game1_data game2_data =
     prompt_head @ py_format repr game1_data @ prompt_mid @ py_format repr game2_data @ prompt_tail"

definition build_request :: "(json \<Rightarrow> pystr) \<Rightarrow> json \<Rightarrow> json \<Rightarrow> completion_request" where
  "build_request repr game1_data game2_data =
     \<lparr> model = ascii ''gpt-4'',
       system_content = system_message,
       user_content = build_prompt repr game1_data game2_data,
       temperature_percent = 85,
       max_tokens = 2500 \<rparr>"

text \<open>The result, and the requests sent to the client during the call.\<close>

definition create_game_mashup ::
  "completion_client option \<Rightarrow> (json \<Rightarrow> pystr) \<Rightarrow> json \<Rightarrow> json
     \<Rightarrow> (exn + pystr) \<times> completion_request list" where
  "create_game_mashup client repr game1_data game2_data =
     (case client of
        None \<Rightarrow> (Inr not_initialized_message, [])
      | Some c \<Rightarrow>
          (let req = build_request repr game1_data game2_data
           in (c req, [req])))"

subsection \<open>\<^verbatim>\<open>process_game_mashup\<close>\<close>

definition mashup_name_key :: pystr where
  "mashup_name_key = ascii ''mashup_name''"

definition game1_data_key :: pystr where
  "game1_data_key = ascii ''game1_data''"

definition game2_data_key :: pystr where
  "game2_data_key = ascii ''game2_data''"

definition required_fields :: "pystr list" where
  "required_fields = [mashup_name_key, game1_data_key, game2_data_key]"

definition missing_message :: "pystr \<Rightarrow> pystr" where
  "missing_message field = ascii ''Missing required field: '' @ field"

text \<open>The loop over \<^verbatim>\<open>required_fields\<close>; \<^verbatim>\<open>or\<close> evaluates its right side only
  when the left one is false.\<close>

fun validate :: "json \<Rightarrow> pystr list \<Rightarrow> exn + unit" where
  "validate data [] = Inr ()"
| "validate data (field # rest) =
     (case py_in field data of
        Inl e \<Rightarrow> Inl e
      | Inr present \<Rightarrow>
          if \<not> present then Inl (ValueError (missing_message field))
          else (case py_getitem data field of
                  Inl e \<Rightarrow> Inl e
                | Inr v \<Rightarrow>
                    if \<not> truthy v then Inl (ValueError (missing_message field))
                    else validate data rest))"

text \<open>Python's \<^verbatim>\<open>uuid\<close> module: \<^verbatim>\<open>str(u)\<close> is \<^verbatim>\<open>'%032x' % u.int\<close> cut
  into groups of 8, 4, 4, 4 and 12 digits joined by hyphens.\<close>

definition hexdigit :: "nat \<Rightarrow> nat" where
  "hexdigit d = (if d < 10 then 48 + d else 87 + d)"

definition hex32 :: "128 word \<Rightarrow> pystr" where
  "hex32 u = map (\<lambda>i. hexdigit (unat u div 16 ^ i mod 16)) (rev [0..<32])"

definition uuid_str :: "128 word \<Rightarrow> pystr" where
  "uuid_str u =
     (let h = hex32 u
      in take 8 h @ ascii ''-'' @ take 4 (drop 8 h) @ ascii ''-'' @ take 4 (drop 12 h) @
         ascii ''-'' @ take 4 (drop 16 h) @ ascii ''-'' @ drop 20 h)"

text \<open>\<^verbatim>\<open>d[:100] + "..." if len(d) > 100 else d\<close> on a string.\<close>

definition excerpt :: "pystr \<Rightarrow> pystr" where
  "excerpt d = (if length d > 100 then take 100 d @ ascii ''...'' else d)"

text \<open>The same expression on any value that passed validation: \<^verbatim>\<open>len\<close> is
  defined on strings, lists and dicts only, a list cannot be joined to a string, and a
  dict cannot be sliced.\<close>

fun excerpt_val :: "json \<Rightarrow> exn + json" where
  "excerpt_val (JStr s) = Inr (JStr (excerpt s))"
| "excerpt_val (JList xs) =
     (if length xs > 100
      then Inl (TypeError (ascii ''can only concatenate list (not '' @ [0x22] @ ascii ''str'' @
                           [0x22] @ ascii '') to list''))
      else Inr (JList xs))"
| "excerpt_val (JDict kvs) =
     (if length (remdups (map fst kvs)) > 100
      then Inl (KeyError (ascii ''slice(None, 100, None)''))
      else Inr (JDict kvs))"
| "excerpt_val v =
     Inl (TypeError (ascii ''object of type '' @ [0x27] @ py_type_name v @ [0x27] @
                     ascii '' has no len()''))"

record source_games =
  game1 :: json
  game2 :: json

record mashup_result =
  success :: bool
  message :: pystr
  report_id :: pystr
  mashup_name :: json
  concept :: pystr
  source_games :: source_games
  generated_at :: pystr

text \<open>The line \<^verbatim>\<open>f"Creating mashup concept: {mashup_name}..."\<close>.\<close>

definition creating_line :: "(json \<Rightarrow> pystr) \<Rightarrow> json \<Rightarrow> pystr" where
  "creating_line repr name =
     ascii ''Creating mashup concept: '' @ py_format repr name @ ascii ''...''"

text \<open>
  \<open>out\<close> is standard output, \<open>uuid4\<close> is the random 128-bit value
  \<^verbatim>\<open>uuid.uuid4()\<close> draws in this call and \<open>now\<close> the text
  \<^verbatim>\<open>datetime.now().strftime(...)\<close> gives in this call. An exception raised by
  \<^verbatim>\<open>print\<close> leaves the function before the client is called. The dict display is
  evaluated entry by entry, in the order written.
\<close>

definition process_game_mashup ::
  "completion_client option \<Rightarrow> (json \<Rightarrow> pystr) \<Rightarrow> stdout \<Rightarrow> 128 word \<Rightarrow> pystr \<Rightarrow> json
     \<Rightarrow> (exn + mashup_result) \<times> completion_request list" where
  "process_game_mashup client repr out uuid4 now data =
     (case validate data required_fields of
        Inl e \<Rightarrow> (Inl e, [])
      | Inr _ \<Rightarrow>
     (case py_getitem data mashup_name_key of
        Inl e \<Rightarrow> (Inl e, [])
      | Inr name \<Rightarrow>
     (case py_getitem data game1_data_key of
        Inl e \<Rightarrow> (Inl e, [])
      | Inr game1_data \<Rightarrow>
     (case py_getitem data game2_data_key of
        Inl e \<Rightarrow> (Inl e, [])
      | Inr game2_data \<Rightarrow>
     (case out (creating_line repr name) of
        Some e \<Rightarrow> (Inl e, [])
      | None \<Rightarrow>
     (case create_game_mashup client repr game1_data game2_data of
        (Inl e, calls) \<Rightarrow> (Inl e, calls)
      | (Inr mashup_concept, calls) \<Rightarrow>
     (let rid = take 8 (uuid_str uuid4) in
     (case excerpt_val game1_data of
        Inl e \<Rightarrow> (Inl e, calls)
      | Inr e1 \<Rightarrow>
     (case excerpt_val game2_data of
        Inl e \<Rightarrow> (Inl e, calls)
      | Inr e2 \<Rightarrow>
          (Inr \<lparr> success = True,
                 message = ascii ''Game mashup created successfully!'',
                 report_id = rid,
                 mashup_name = name,
                 concept = mashup_concept,
                 source_games = \<lparr> game1 = e1, game2 = e2 \<rparr>,
                 generated_at = now \<rparr>, calls))))))))))"

subsection \<open>\<^verbatim>\<open>api_create_mashup\<close>\<close>

datatype body = ErrorBody pystr | ResultBody mashup_result

type_synonym http_response = "body \<times> nat"

text \<open>The line \<^verbatim>\<open>f"... Error in API: {str(e)}"\<close>, which starts with the cross mark
  U+274C.\<close>

definition error_line :: "exn \<Rightarrow> pystr" where
  "error_line e = [0x274C] @ ascii '' Error in API: '' @ exn_str e"

text \<open>
  \<open>data\<close> is the value of \<^verbatim>\<open>request.json\<close>; a response without an explicit
  status has status 200. The handler of \<^verbatim>\<open>Exception\<close> prints before it returns: an
  exception raised by that \<^verbatim>\<open>print\<close> leaves the view function, which is the
  result \<open>Inl\<close>.
\<close>

definition api_create_mashup ::
  "completion_client option \<Rightarrow> (json \<Rightarrow> pystr) \<Rightarrow> stdout \<Rightarrow> 128 word \<Rightarrow> pystr \<Rightarrow> json
     \<Rightarrow> (exn + http_response) \<times> completion_request list" where
  "api_create_mashup client repr out uuid4 now data =
     (if data = JNull then (Inr (ErrorBody (ascii ''No JSON data provided''), 400), [])
      else (case process_game_mashup client repr out uuid4 now data of
              (Inr response_data, calls) \<Rightarrow> (Inr (ResultBody response_data, 200), calls)
            | (Inl (ValueError m), calls) \<Rightarrow> (Inr (ErrorBody m, 400), calls)
            | (Inl e, calls) \<Rightarrow>
                (case out (error_line e) of
                   Some e' \<Rightarrow> (Inl e', calls)
                 | None \<Rightarrow> (Inr (ErrorBody (exn_str e), 500), calls))))"

subsection \<open>Notions used to state the properties\<close>

text \<open>A required field is missing from a JSON object when its key is absent or its value
  is falsy.\<close>

definition field_missing :: "(pystr \<times> json) list \<Rightarrow> pystr \<Rightarrow> bool" where
  "field_missing kvs field = (case map_of kvs field of None \<Rightarrow> True | Some v \<Rightarrow> \<not> truthy v)"

text \<open>A JSON object with the three required keys.\<close>

definition payload :: "json \<Rightarrow> json \<Rightarrow> json \<Rightarrow> json" where
  "payload name g1 g2 = JDict [(mashup_name_key, name), (game1_data_key, g1), (game2_data_key, g2)]"

text \<open>A standard output that takes every line.\<close>

definition accepting_stdout :: stdout where
  "accepting_stdout line = None"

text \<open>Test doubles for the client: one that answers a fixed text, one that raises.\<close>

definition mock_client :: "pystr \<Rightarrow> completion_client" where
  "mock_client text = (\<lambda>req. Inr text)"

definition failing_client :: "exn \<Rightarrow> completion_client" where
  "failing_client e = (\<lambda>req. Inl e)"

text \<open>The names of the eight sections the prompt asks for, and what it means for a list
  of texts to occur in a string one after the other, without overlap.\<close>

definition section_headings :: "pystr list" where
  "section_headings =
     [ascii ''Title'', ascii ''Genre & Core Concept'', ascii ''Unique Selling Points'',
      ascii ''Core Game Loop'', ascii ''Key Mechanics Fusion'', ascii ''Target Audience'',
      ascii ''Monetization Strategy'', ascii ''Marketing Hooks'']"

fun in_order :: "pystr list \<Rightarrow> pystr \<Rightarrow> bool" where
  "in_order [] s = True"
| "in_order (h # hs) s = (\<exists>pre post. s = pre @ h @ post \<and> in_order hs post)"

section \<open>Auxiliary facts\<close>

subsection \<open>Keys and sample payloads\<close>

lemmas key_defs = mashup_name_key_def game1_data_key_def game2_data_key_def ascii_def

lemma keys_distinct:
  "mashup_name_key \<noteq> game1_data_key" "mashup_name_key \<noteq> game2_data_key"
  "game1_data_key \<noteq> game2_data_key" "game1_data_key \<noteq> mashup_name_key"
  "game2_data_key \<noteq> mashup_name_key" "game2_data_key \<noteq> game1_data_key"
  by (simp_all add: key_defs)

lemma field_missing_payload:
  "field_missing [(mashup_name_key, name), (game1_data_key, g1), (game2_data_key, g2)] mashup_name_key = (\<not> truthy name)"
  "field_missing [(mashup_name_key, name), (game1_data_key, g1), (game2_data_key, g2)] game1_data_key = (\<not> truthy g1)"
  "field_missing [(mashup_name_key, name), (game1_data_key, g1), (game2_data_key, g2)] game2_data_key = (\<not> truthy g2)"
  by (simp_all add: field_missing_def keys_distinct)

lemma payload_not_null: "payload name g1 g2 \<noteq> JNull"
  by (simp add: payload_def)

subsection \<open>Validation\<close>

lemma in_keys_iff: "(f \<in> fst ` set kvs) = (map_of kvs f \<noteq> None)"
  by (simp add: map_of_eq_None_iff)

lemma validate_dict:
  "validate (JDict kvs) fs =
     (case find (field_missing kvs) fs of
        None \<Rightarrow> Inr ()
      | Some f \<Rightarrow> Inl (ValueError (missing_message f)))"
proof (induction fs)
  case Nil
  show ?case by simp
next
  case (Cons f fs)
  show ?case
  proof (cases "map_of kvs f")
    case None
    then show ?thesis by (simp add: field_missing_def in_keys_iff)
  next
    case (Some v)
    with Cons show ?thesis by (simp add: field_missing_def in_keys_iff)
  qed
qed

lemma process_invalid:
  "validate data required_fields = Inl e \<Longrightarrow>
   process_game_mashup client repr out u now data = (Inl e, [])"
  by (simp add: process_game_mashup_def)

lemma validate_payload:
  "validate (payload name g1 g2) required_fields =
     (if \<not> truthy name then Inl (ValueError (missing_message mashup_name_key))
      else if \<not> truthy g1 then Inl (ValueError (missing_message game1_data_key))
      else if \<not> truthy g2 then Inl (ValueError (missing_message game2_data_key))
      else Inr ())"
  unfolding payload_def validate_dict
  by (simp add: required_fields_def field_missing_payload)

lemma getitem_payload:
  "py_getitem (payload name g1 g2) mashup_name_key = Inr name"
  "py_getitem (payload name g1 g2) game1_data_key = Inr g1"
  "py_getitem (payload name g1 g2) game2_data_key = Inr g2"
  by (simp_all add: payload_def keys_distinct)

lemma validate_ok_getitem:
  assumes "validate data fs = Inr ()" "f \<in> set fs"
  shows "\<exists>v. py_getitem data f = Inr v \<and> truthy v"
  using assms
proof (induction fs)
  case Nil
  then show ?case by simp
next
  case (Cons a fs)
  then show ?case
    by (auto split: sum.splits if_splits)
qed

subsection \<open>Runs that pass validation\<close>

lemma process_valid:
  assumes "validate data required_fields = Inr ()"
      and "py_getitem data game1_data_key = Inr g1"
      and "py_getitem data game2_data_key = Inr g2"
  shows "\<exists>name. py_getitem data mashup_name_key = Inr name \<and>
     process_game_mashup client repr out u now data =
     (case out (creating_line repr name) of
        Some e \<Rightarrow> (Inl e, [])
      | None \<Rightarrow>
     (case create_game_mashup client repr g1 g2 of
        (Inl e, calls) \<Rightarrow> (Inl e, calls)
      | (Inr mashup_concept, calls) \<Rightarrow>
     (case excerpt_val g1 of
        Inl e \<Rightarrow> (Inl e, calls)
      | Inr e1 \<Rightarrow>
     (case excerpt_val g2 of
        Inl e \<Rightarrow> (Inl e, calls)
      | Inr e2 \<Rightarrow>
          (Inr \<lparr> success = True,
                 message = ascii ''Game mashup created successfully!'',
                 report_id = take 8 (uuid_str u),
                 mashup_name = name,
                 concept = mashup_concept,
                 source_games = \<lparr> game1 = e1, game2 = e2 \<rparr>,
                 generated_at = now \<rparr>, calls)))))"
proof -
  from validate_ok_getitem [OF assms(1), of mashup_name_key]
  obtain name where "py_getitem data mashup_name_key = Inr name"
    by (auto simp: required_fields_def)
  with assms show ?thesis
    by (simp add: process_game_mashup_def Let_def split: prod.splits sum.splits option.splits)
qed

lemma process_payload_ok:
  assumes "truthy name" "truthy g1" "truthy g2" "out (creating_line repr name) = None"
  shows "process_game_mashup client repr out u now (payload name g1 g2) =
     (case create_game_mashup client repr g1 g2 of
        (Inl e, calls) \<Rightarrow> (Inl e, calls)
      | (Inr mashup_concept, calls) \<Rightarrow>
     (case excerpt_val g1 of
        Inl e \<Rightarrow> (Inl e, calls)
      | Inr e1 \<Rightarrow>
     (case excerpt_val g2 of
        Inl e \<Rightarrow> (Inl e, calls)
      | Inr e2 \<Rightarrow>
          (Inr \<lparr> success = True,
                 message = ascii ''Game mashup created successfully!'',
                 report_id = take 8 (uuid_str u),
                 mashup_name = name,
                 concept = mashup_concept,
                 source_games = \<lparr> game1 = e1, game2 = e2 \<rparr>,
                 generated_at = now \<rparr>, calls))))"
  using assms by (simp add: process_game_mashup_def validate_payload getitem_payload Let_def split: prod.splits sum.splits)

lemma process_payload_mock:
  assumes "truthy name" "d1 \<noteq> []" "d2 \<noteq> []" "out (creating_line repr name) = None"
  shows "process_game_mashup (Some (mock_client text)) repr out u now
           (payload name (JStr d1) (JStr d2)) =
     (Inr \<lparr> success = True,
                 message = ascii ''Game mashup created successfully!'',
                 report_id = take 8 (uuid_str u),
                 mashup_name = name,
                 concept = text,
                 source_games = \<lparr> game1 = JStr (excerpt d1), game2 = JStr (excerpt d2) \<rparr>,
                 generated_at = now \<rparr>, [build_request repr (JStr d1) (JStr d2)])"
  using assms
  by (simp add: process_payload_ok create_game_mashup_def mock_client_def Let_def)


lemma process_calls:
  assumes "py_getitem data game1_data_key = Inr g1"
      and "py_getitem data game2_data_key = Inr g2"
  shows "snd (process_game_mashup (Some c) repr out u now data) = [] \<or>
         snd (process_game_mashup (Some c) repr out u now data) = [build_request repr g1 g2]"
  using assms
  by (auto simp: process_game_mashup_def create_game_mashup_def Let_def
      split: sum.splits prod.splits option.splits)

text \<open>For a JSON object with a required field absent or falsy, the first such field is
  named and the client is not called.\<close>

lemma object_missing_field_rejected_in_order:
  assumes "f \<in> set required_fields" and "field_missing kvs f"
  shows "process_game_mashup client repr out u now (JDict kvs) =
           (Inl (ValueError (missing_message
              (if field_missing kvs mashup_name_key then mashup_name_key
               else if field_missing kvs game1_data_key then game1_data_key
               else game2_data_key))), [])"
proof -
  from assms have "validate (JDict kvs) required_fields =
      Inl (ValueError (missing_message
              (if field_missing kvs mashup_name_key then mashup_name_key
               else if field_missing kvs game1_data_key then game1_data_key
               else game2_data_key)))"
    unfolding validate_dict by (auto simp: required_fields_def)
  then show ?thesis by (rule process_invalid)
qed

subsection \<open>Hexadecimal rendering\<close>






subsection \<open>Excerpts\<close>

lemma excerpt_marker_iff: "(excerpt d = take 100 d @ ascii ''...'') = (100 < length d)"
proof (cases "100 < length d")
  case True
  then show ?thesis by (simp add: excerpt_def)
next
  case False
  then have "length (excerpt d) \<noteq> length (take 100 d @ ascii ''...'')"
    by (simp add: excerpt_def ascii_def)
  with False show ?thesis by metis
qed

subsection \<open>Sections of the prompt\<close>

lemma in_order_skip: "in_order hs s \<Longrightarrow> in_order hs (p @ s)"
proof (cases hs)
  case Nil
  then show ?thesis by simp
next
  case (Cons h rest)
  assume "in_order hs s"
  with Cons obtain pre post where "s = pre @ h @ post" "in_order rest post"
    by auto
  then have "p @ s = (p @ pre) @ h @ post \<and> in_order rest post" by simp
  then have "in_order (h # rest) (p @ s)" unfolding in_order.simps by blast
  with Cons show ?thesis by simp
qed

lemma in_order_here: "in_order hs post \<Longrightarrow> in_order (h # hs) (pre @ h @ post)"
  by auto

lemma heading_lines:
  "ascii '' Game Title\<newline>'' = ascii '' Game '' @ ascii ''Title'' @ ascii ''\<newline>''"
  "ascii '' Genre & Core Concept\<newline>'' = ascii '' '' @ ascii ''Genre & Core Concept'' @ ascii ''\<newline>''"
  "ascii '' Unique Selling Points\<newline>'' = ascii '' '' @ ascii ''Unique Selling Points'' @ ascii ''\<newline>''"
  "ascii '' Core Game Loop\<newline>'' = ascii '' '' @ ascii ''Core Game Loop'' @ ascii ''\<newline>''"
  "ascii '' Key Mechanics Fusion\<newline>'' = ascii '' '' @ ascii ''Key Mechanics Fusion'' @ ascii ''\<newline>''"
  "ascii '' Target Audience\<newline>'' = ascii '' '' @ ascii ''Target Audience'' @ ascii ''\<newline>''"
  "ascii '' Monetization Strategy\<newline>'' = ascii '' '' @ ascii ''Monetization Strategy'' @ ascii ''\<newline>''"
  "ascii '' Marketing Hooks\<newline>'' = ascii '' '' @ ascii ''Marketing Hooks'' @ ascii ''\<newline>''"
  by (simp_all add: ascii_def)

lemma in_order_prompt_tail: "in_order section_headings prompt_tail"
  unfolding prompt_tail_def section_headings_def
  apply (simp only: heading_lines append_assoc)
  apply ((rule in_order_here | rule in_order_skip)+)
  apply simp
  done

section \<open>The claims\<close>

subsection \<open>C1: a result if and only if validation and the client both succeed\<close>

text \<open>
  C1 says that a successful result is returned if and only if validation passes and the
  completion client returns text, and that a missing configuration yields an error. The code
  does otherwise when \<^verbatim>\<open>client is None\<close>: \<^verbatim>\<open>create_game_mashup\<close> returns its
  "not initialized" text instead of raising, and \<^verbatim>\<open>process_game_mashup\<close> wraps that text
  as the concept of a result with \<^verbatim>\<open>success: True\<close>. The run below is the code on a
  well-formed payload with no client.
\<close>

theorem unconfigured_client_reported_as_success:
  "process_game_mashup None repr accepting_stdout u now
     (payload (JStr (ascii ''M'')) (JStr (ascii ''a'')) (JStr (ascii ''b''))) =
   (Inr \<lparr> success = True,
          message = ascii ''Game mashup created successfully!'',
          report_id = take 8 (uuid_str u),
          mashup_name = JStr (ascii ''M''),
          concept = not_initialized_message,
          source_games = \<lparr> game1 = JStr (ascii ''a''), game2 = JStr (ascii ''b'') \<rparr>,
          generated_at = now \<rparr>, [])"
  by (simp add: process_payload_ok accepting_stdout_def create_game_mashup_def excerpt_def
      ascii_def)

subsection \<open>C2: no credential, no success\<close>

text \<open>
  C2 says that without a credential every call with a valid payload fails with a
  configuration error and makes no call to the client. No call is made, but the endpoint
  answers with status 200 and a result whose concept is the "not initialized" text.
\<close>

theorem unconfigured_client_answers_200:
  "api_create_mashup None repr accepting_stdout u now
     (payload (JStr (ascii ''M'')) (JStr (ascii ''a'')) (JStr (ascii ''b''))) =
   (Inr (ResultBody \<lparr> success = True,
          message = ascii ''Game mashup created successfully!'',
          report_id = take 8 (uuid_str u),
          mashup_name = JStr (ascii ''M''),
          concept = not_initialized_message,
          source_games = \<lparr> game1 = JStr (ascii ''a''), game2 = JStr (ascii ''b'') \<rparr>,
          generated_at = now \<rparr>, 200), [])"
  by (simp add: api_create_mashup_def payload_not_null process_payload_ok accepting_stdout_def
      create_game_mashup_def excerpt_def ascii_def)

subsection \<open>C3: the first missing field is named, and the client is not called\<close>

text \<open>
  C3 says that for every payload in which a required field is missing, validation fails with
  a \<^verbatim>\<open>ValueError\<close> naming the first such field. For a JSON object this is
  \<open>object_missing_field_rejected_in_order\<close>. The body of a request can be any JSON value,
  though, and only \<^verbatim>\<open>None\<close> is turned away before validation: for the body
  \<^verbatim>\<open>5\<close>, which has none of the fields, \<^verbatim>\<open>field not in data\<close> raises a
  \<^verbatim>\<open>TypeError\<close>, and the endpoint answers with status 500 instead of the status 400 of
  a validation failure. The same happens for the body \<^verbatim>\<open>["mashup_name"]\<close>, at
  \<^verbatim>\<open>data[field]\<close>. The client is not called in either run.
\<close>

theorem non_object_payload_answers_500:
  "process_game_mashup (Some (mock_client (ascii ''MOCK''))) (\<lambda>v. []) accepting_stdout 0 []
     (JInt 5) =
     (Inl (TypeError (ascii ''argument of type '' @ [0x27] @ ascii ''int'' @ [0x27] @
                      ascii '' is not iterable'')), []) \<and>
   api_create_mashup (Some (mock_client (ascii ''MOCK''))) (\<lambda>v. []) accepting_stdout 0 []
     (JInt 5) =
     (Inr (ErrorBody (ascii ''argument of type '' @ [0x27] @ ascii ''int'' @ [0x27] @
                      ascii '' is not iterable''), 500), []) \<and>
   api_create_mashup (Some (mock_client (ascii ''MOCK''))) (\<lambda>v. []) accepting_stdout 0 []
     (JList [JStr mashup_name_key]) =
     (Inr (ErrorBody (ascii ''list indices must be integers or slices, not str''), 500), [])"
  by (simp add: api_create_mashup_def process_game_mashup_def required_fields_def
      accepting_stdout_def)

subsection \<open>C4: which values count as missing\<close>

text \<open>
  C4 says that every non-string value of a required field is treated as missing. The check
  is \<^verbatim>\<open>not data[field]\<close>, which looks at the truth value only: the number 5 as
  project name passes validation.
\<close>

theorem truthy_non_string_passes_validation:
  "validate (payload (JInt 5) (JStr (ascii ''x'')) (JStr (ascii ''y''))) required_fields = Inr ()"
  by (simp add: validate_payload ascii_def)

text \<open>
  C4 as amended: validation of a JSON object succeeds exactly when each of the three keys
  is present with a truthy value (of any type); otherwise it raises the
  \<^verbatim>\<open>ValueError\<close> naming the first field that is absent or falsy (null, false, zero,
  an empty string, list or object).
\<close>

theorem validate_checks_presence_and_truthiness:
  "validate (JDict kvs) required_fields =
     (if \<forall>f \<in> set required_fields. \<exists>v. map_of kvs f = Some v \<and> truthy v then Inr ()
      else Inl (ValueError (missing_message
              (if field_missing kvs mashup_name_key then mashup_name_key
               else if field_missing kvs game1_data_key then game1_data_key
               else game2_data_key))))"
  unfolding validate_dict
  by (auto simp: required_fields_def field_missing_def split: option.splits)

text \<open>Non-string truthy values pass; a false boolean is reported as missing.\<close>

theorem validate_checks_presence_and_truthiness_witness:
  "validate (JDict [(game2_data_key, JBool True), (game1_data_key, JList [JNull]),
                    (mashup_name_key, JFloat 1)]) required_fields = Inr () \<and>
   validate (JDict [(game2_data_key, JBool False), (game1_data_key, JList [JNull]),
                    (mashup_name_key, JFloat 1)]) required_fields =
     Inl (ValueError (ascii ''Missing required field: game2_data''))"
proof -
  have a: "validate (JDict [(game2_data_key, JBool True), (game1_data_key, JList [JNull]),
                    (mashup_name_key, JFloat 1)]) required_fields = Inr ()"
    using validate_checks_presence_and_truthiness
      [of "[(game2_data_key, JBool True), (game1_data_key, JList [JNull]), (mashup_name_key, JFloat 1)]"]
    by (simp add: required_fields_def keys_distinct)
  have b: "validate (JDict [(game2_data_key, JBool False), (game1_data_key, JList [JNull]),
                    (mashup_name_key, JFloat 1)]) required_fields =
      Inl (ValueError (missing_message game2_data_key))"
    using validate_checks_presence_and_truthiness
      [of "[(game2_data_key, JBool False), (game1_data_key, JList [JNull]), (mashup_name_key, JFloat 1)]"]
    by (simp add: required_fields_def keys_distinct field_missing_def)
  from a b show ?thesis
    by (simp add: missing_message_def game2_data_key_def ascii_def)
qed

subsection \<open>C5: excerpts\<close>

text \<open>
  C5: in a successful run on string descriptions, each entry of \<^verbatim>\<open>source_games\<close> is
  the description itself when it has at most 100 characters, and its first 100 characters
  followed by \<^verbatim>\<open>...\<close> otherwise; the marker is appended if and only if the length
  exceeds 100.
\<close>

theorem excerpt_of_description:
  assumes "process_game_mashup client repr out u now data = (Inr r, calls)"
      and "py_getitem data game1_data_key = Inr (JStr d1)"
      and "py_getitem data game2_data_key = Inr (JStr d2)"
  shows "game1 (source_games r) =
           JStr (if length d1 \<le> 100 then d1 else take 100 d1 @ ascii ''...'') \<and>
         game2 (source_games r) =
           JStr (if length d2 \<le> 100 then d2 else take 100 d2 @ ascii ''...'') \<and>
         (excerpt d = take 100 d @ ascii ''...'') = (100 < length d)"
  using assms excerpt_marker_iff [of d]
  by (auto simp: process_game_mashup_def Let_def excerpt_def
      split: sum.splits prod.splits option.splits)

text \<open>A description of 101 characters is cut, one of 100 characters is not.\<close>

theorem excerpt_of_description_witness:
  "fst (process_game_mashup (Some (mock_client (ascii ''MOCK''))) (\<lambda>v. []) accepting_stdout 0
          (ascii ''now'')
          (payload (JStr (ascii ''M'')) (JStr (replicate 101 120)) (JStr (replicate 100 121)))) =
     Inr \<lparr> success = True,
            message = ascii ''Game mashup created successfully!'',
            report_id = take 8 (uuid_str 0),
            mashup_name = JStr (ascii ''M''),
            concept = ascii ''MOCK'',
            source_games = \<lparr> game1 = JStr (replicate 100 120 @ ascii ''...''),
                               game2 = JStr (replicate 100 121) \<rparr>,
            generated_at = ascii ''now'' \<rparr>"
proof -
  let ?r = "\<lparr> success = True,
            message = ascii ''Game mashup created successfully!'',
            report_id = take 8 (uuid_str 0),
            mashup_name = JStr (ascii ''M''),
            concept = ascii ''MOCK'',
            source_games = \<lparr> game1 = JStr (excerpt (replicate 101 120)),
                               game2 = JStr (excerpt (replicate 100 121)) \<rparr>,
            generated_at = ascii ''now'' \<rparr>"
  let ?p = "payload (JStr (ascii ''M'')) (JStr (replicate 101 120)) (JStr (replicate 100 121))"
  have run: "process_game_mashup (Some (mock_client (ascii ''MOCK''))) (\<lambda>v. []) accepting_stdout 0
               (ascii ''now'') ?p =
        (Inr ?r, [build_request (\<lambda>v. []) (JStr (replicate 101 120)) (JStr (replicate 100 121))])"
    by (simp add: process_payload_mock accepting_stdout_def ascii_def)
  have g1: "py_getitem ?p game1_data_key = Inr (JStr (replicate 101 120))"
    and g2: "py_getitem ?p game2_data_key = Inr (JStr (replicate 100 121))"
    by (simp_all add: getitem_payload)
  from excerpt_of_description [OF run g1 g2]
  have "game1 (source_games ?r) = JStr (replicate 100 120 @ ascii ''...'')"
    and "game2 (source_games ?r) = JStr (replicate 100 121)"
    by simp_all
  with run show ?thesis by simp
qed

subsection \<open>C6: the user prompt\<close>

text \<open>
  C6: for all description strings the request sent to the client carries the user prompt
  \<open>prompt_head @ g1 @ prompt_mid @ g2 @ prompt_tail\<close>, where the three template parts
  do not depend on the inputs; both descriptions occur in it as contiguous blocks, unchanged,
  and the eight section names occur in it in the order Title, Genre & Core Concept, Unique
  Selling Points, Core Game Loop, Key Mechanics Fusion, Target Audience, Monetization
  Strategy, Marketing Hooks.
\<close>

theorem user_prompt_embeds_blobs_and_sections:
  "snd (create_game_mashup (Some c) repr (JStr g1) (JStr g2)) =
     [build_request repr (JStr g1) (JStr g2)] \<and>
   user_content (build_request repr (JStr g1) (JStr g2)) =
     prompt_head @ g1 @ prompt_mid @ g2 @ prompt_tail \<and>
   sublist g1 (user_content (build_request repr (JStr g1) (JStr g2))) \<and>
   sublist g2 (user_content (build_request repr (JStr g1) (JStr g2))) \<and>
   in_order section_headings (user_content (build_request repr (JStr g1) (JStr g2)))"
proof -
  have u: "user_content (build_request repr (JStr g1) (JStr g2)) =
     prompt_head @ g1 @ prompt_mid @ g2 @ prompt_tail"
    by (simp add: build_request_def build_prompt_def)
  have s1: "sublist g1 (prompt_head @ g1 @ prompt_mid @ g2 @ prompt_tail)"
    unfolding sublist_def by blast
  have "prompt_head @ g1 @ prompt_mid @ g2 @ prompt_tail =
        (prompt_head @ g1 @ prompt_mid) @ g2 @ prompt_tail" by simp
  then have s2: "sublist g2 (prompt_head @ g1 @ prompt_mid @ g2 @ prompt_tail)"
    unfolding sublist_def by blast
  have o: "in_order section_headings (prompt_head @ g1 @ prompt_mid @ g2 @ prompt_tail)"
    by (intro in_order_skip in_order_prompt_tail)
  from u s1 s2 o show ?thesis
    by (simp add: create_game_mashup_def Let_def)
qed

subsection \<open>C7: prompt building is deterministic\<close>

text \<open>
  C7: two runs of \<^verbatim>\<open>create_game_mashup\<close> on the same two description strings build
  the same request, hence the same system and user strings, whatever the client answers. It
  carries over to \<^verbatim>\<open>process_game_mashup\<close>: in two runs on payloads with the same two
  description strings, whatever the project name, the client, standard output, the UUID and
  the time of each run, every request that is sent is that same request. (A run sends none
  when validation fails or \<^verbatim>\<open>print\<close> raises.)
\<close>

theorem prompts_depend_only_on_descriptions:
  assumes "py_getitem data game1_data_key = Inr (JStr g1)"
      and "py_getitem data' game1_data_key = Inr (JStr g1)"
      and "py_getitem data game2_data_key = Inr (JStr g2)"
      and "py_getitem data' game2_data_key = Inr (JStr g2)"
  shows "snd (create_game_mashup (Some c) repr (JStr g1) (JStr g2)) =
           snd (create_game_mashup (Some c') repr' (JStr g1) (JStr g2)) \<and>
         map (\<lambda>q. (system_content q, user_content q))
             (snd (create_game_mashup (Some c) repr (JStr g1) (JStr g2))) =
           [(system_message, prompt_head @ g1 @ prompt_mid @ g2 @ prompt_tail)] \<and>
         (\<forall>q \<in> set (snd (process_game_mashup (Some c) repr out u now data)).
          \<forall>q' \<in> set (snd (process_game_mashup (Some c') repr' out' u' now' data')).
            q = q' \<and> system_content q = system_message \<and>
            user_content q = prompt_head @ g1 @ prompt_mid @ g2 @ prompt_tail)"
proof -
  let ?q = "build_request repr (JStr g1) (JStr g2)"
  have q: "build_request repr' (JStr g1) (JStr g2) = ?q"
    by (simp add: build_request_def build_prompt_def)
  have f: "system_content ?q = system_message"
    "user_content ?q = prompt_head @ g1 @ prompt_mid @ g2 @ prompt_tail"
    by (simp_all add: build_request_def build_prompt_def)
  have c: "\<And>k r. snd (create_game_mashup (Some k) r (JStr g1) (JStr g2)) =
              [build_request r (JStr g1) (JStr g2)]"
    by (simp add: create_game_mashup_def Let_def)
  have p: "set (snd (process_game_mashup (Some c) repr out u now data)) \<subseteq> {?q}"
    using process_calls [OF assms(1,3), of c repr out u now] by auto
  have p': "set (snd (process_game_mashup (Some c') repr' out' u' now' data')) \<subseteq> {?q}"
    using process_calls [OF assms(2,4), of c' repr' out' u' now'] q by auto
  from p p' f have "\<forall>q \<in> set (snd (process_game_mashup (Some c) repr out u now data)).
          \<forall>q' \<in> set (snd (process_game_mashup (Some c') repr' out' u' now' data')).
            q = q' \<and> system_content q = system_message \<and>
            user_content q = prompt_head @ g1 @ prompt_mid @ g2 @ prompt_tail"
    by blast
  with c q f show ?thesis by simp
qed

text \<open>Two runs that differ in everything but the descriptions, each sending its
  request.\<close>

theorem prompts_depend_only_on_descriptions_witness:
  "snd (process_game_mashup (Some (mock_client (ascii ''MOCK''))) (\<lambda>v. []) accepting_stdout 0
          (ascii ''t1'') (payload (JStr (ascii ''M'')) (JStr (ascii ''a'')) (JStr (ascii ''b'')))) =
     [build_request (\<lambda>v. []) (JStr (ascii ''a'')) (JStr (ascii ''b''))] \<and>
   snd (process_game_mashup (Some (failing_client (OtherError (ascii ''down''))))
          (\<lambda>v. ascii ''?'') accepting_stdout 1
          (ascii ''t2'') (payload (JInt 7) (JStr (ascii ''a'')) (JStr (ascii ''b'')))) =
     [build_request (\<lambda>v. ascii ''?'') (JStr (ascii ''a'')) (JStr (ascii ''b''))] \<and>
   build_request (\<lambda>v. []) (JStr (ascii ''a'')) (JStr (ascii ''b'')) =
     build_request (\<lambda>v. ascii ''?'') (JStr (ascii ''a'')) (JStr (ascii ''b''))"
proof -
  let ?d = "payload (JStr (ascii ''M'')) (JStr (ascii ''a'')) (JStr (ascii ''b''))"
  let ?d' = "payload (JInt 7) (JStr (ascii ''a'')) (JStr (ascii ''b''))"
  have r: "snd (process_game_mashup (Some (mock_client (ascii ''MOCK''))) (\<lambda>v. [])
                  accepting_stdout 0 (ascii ''t1'') ?d) =
             [build_request (\<lambda>v. []) (JStr (ascii ''a'')) (JStr (ascii ''b''))]"
    by (simp add: process_payload_mock accepting_stdout_def ascii_def)
  have r': "snd (process_game_mashup (Some (failing_client (OtherError (ascii ''down''))))
                  (\<lambda>v. ascii ''?'') accepting_stdout 1 (ascii ''t2'') ?d') =
             [build_request (\<lambda>v. ascii ''?'') (JStr (ascii ''a'')) (JStr (ascii ''b''))]"
    by (simp add: process_payload_ok accepting_stdout_def create_game_mashup_def
        failing_client_def Let_def ascii_def)
  from prompts_depend_only_on_descriptions
    [of ?d "ascii ''a''" ?d' "ascii ''b''"
        "mock_client (ascii ''MOCK'')" "\<lambda>v. []"
        "failing_client (OtherError (ascii ''down''))" "\<lambda>v. ascii ''?''"
        accepting_stdout 0 "ascii ''t1''" accepting_stdout 1 "ascii ''t2''"]
  have "\<forall>q \<in> set (snd (process_game_mashup (Some (mock_client (ascii ''MOCK''))) (\<lambda>v. [])
                  accepting_stdout 0 (ascii ''t1'') ?d)).
        \<forall>q' \<in> set (snd (process_game_mashup (Some (failing_client (OtherError (ascii ''down''))))
                  (\<lambda>v. ascii ''?'') accepting_stdout 1 (ascii ''t2'') ?d')). q = q'"
    by (simp add: getitem_payload)
  with r r' show ?thesis by simp
qed

subsection \<open>C8: failures of the client\<close>

text \<open>
  C8 says that a failing client call is answered with the status 500 of a server fault,
  which tells it from a validation failure (400). The handlers of
  \<^verbatim>\<open>api_create_mashup\<close> go by the class of the exception, and validation raises a plain
  \<^verbatim>\<open>ValueError\<close>: when the client raises a \<^verbatim>\<open>ValueError\<close> (a
  \<^verbatim>\<open>UnicodeEncodeError\<close>, say), the first handler takes it and the answer has status
  400, as the answer to a payload without project name has. Any other exception of the client
  reaches the second handler and is answered with status 500. In both runs the message is
  passed through and the client is called once.
\<close>

theorem upstream_value_error_answers_400:
  "api_create_mashup (Some (failing_client (ValueError (ascii ''boom'')))) (\<lambda>v. [])
     accepting_stdout 0 []
     (payload (JStr (ascii ''M'')) (JStr (ascii ''a'')) (JStr (ascii ''b''))) =
     (Inr (ErrorBody (ascii ''boom''), 400),
      [build_request (\<lambda>v. []) (JStr (ascii ''a'')) (JStr (ascii ''b''))]) \<and>
   api_create_mashup (Some (failing_client (OtherError (ascii ''boom'')))) (\<lambda>v. [])
     accepting_stdout 0 []
     (payload (JStr (ascii ''M'')) (JStr (ascii ''a'')) (JStr (ascii ''b''))) =
     (Inr (ErrorBody (ascii ''boom''), 500),
      [build_request (\<lambda>v. []) (JStr (ascii ''a'')) (JStr (ascii ''b''))]) \<and>
   api_create_mashup (Some (failing_client (ValueError (ascii ''boom'')))) (\<lambda>v. [])
     accepting_stdout 0 []
     (payload (JStr []) (JStr (ascii ''a'')) (JStr (ascii ''b''))) =
     (Inr (ErrorBody (ascii ''Missing required field: mashup_name''), 400), [])"
proof -
  have "process_game_mashup (Some (failing_client (ValueError (ascii ''boom'')))) (\<lambda>v. [])
     accepting_stdout 0 []
     (payload (JStr []) (JStr (ascii ''a'')) (JStr (ascii ''b''))) =
     (Inl (ValueError (missing_message mashup_name_key)), [])"
    by (rule process_invalid) (simp add: validate_payload)
  then show ?thesis
    by (simp add: api_create_mashup_def payload_not_null process_payload_ok accepting_stdout_def
        create_game_mashup_def failing_client_def Let_def missing_message_def
        mashup_name_key_def ascii_def)
qed

subsection \<open>C9: the report id\<close>



subsection \<open>C10: a request without JSON\<close>

text \<open>
  C10: when \<^verbatim>\<open>request.json\<close> is \<^verbatim>\<open>None\<close> the endpoint answers
  \<^verbatim>\<open>{'error': 'No JSON data provided'}\<close> with status 400, whatever the client and
  standard output are, and the log of client calls is empty: \<^verbatim>\<open>process_game_mashup\<close>
  is not reached.
\<close>

theorem no_json_body_rejected:
  "api_create_mashup client repr out u now JNull =
     (Inr (ErrorBody (ascii ''No JSON data provided''), 400), [])"
  by (simp add: api_create_mashup_def)

end
